theory Spec2Isabelle
  imports Complex_Main "HOL-Library.Word"
begin

unbundle bit_operations_syntax

section \<open>Python values and the library calls of the session code\<close>

text \<open>
  The embedding follows \<^verbatim>\<open>server/app/__init__.py\<close>: the classes \<^verbatim>\<open>DatabaseSession\<close> and
  \<^verbatim>\<open>DatabaseSessionInterface\<close> and the two CORS hooks of \<^verbatim>\<open>create_app\<close>. Every exception
  the Python raises is a value of \<open>pyerror\<close>; a function that can raise returns
  \<open>pyerror + 'a\<close>, with \<open>Inl\<close> the exception.
\<close>

datatype pyerror = TypeError | ValueError | OverflowError | DatabaseError

text \<open>
  A Python float, as \<^verbatim>\<open>json.loads\<close> may return it (the decoder also accepts
  \<^verbatim>\<open>NaN\<close>, \<^verbatim>\<open>Infinity\<close> and \<^verbatim>\<open>-Infinity\<close>).
\<close>

datatype pyfloat = Finite rat | PosInf | NegInf | NaN

text \<open>
  The Python objects a decoded JSON document is made of, which are also the values the
  model lets a session hold. A \<open>PyDict\<close> lists its items in insertion order.
\<close>

datatype pyval =
    PyNone
  | PyBool bool
  | PyInt int
  | PyFloat pyfloat
  | PyStr string
  | PyList "pyval list"
  | PyDict "(pyval \<times> pyval) list"

type_synonym pydict = "(pyval \<times> pyval) list"

text \<open>Truth value testing, as \<^verbatim>\<open>initial or {}\<close> and \<^verbatim>\<open>if session.permanent\<close> use it.\<close>

fun truthy :: "pyval \<Rightarrow> bool" where
  "truthy PyNone = False"
| "truthy (PyBool b) = b"
| "truthy (PyInt n) = (n \<noteq> 0)"
| "truthy (PyFloat f) = (f \<noteq> Finite 0)"
| "truthy (PyStr s) = (s \<noteq> [])"
| "truthy (PyList xs) = (xs \<noteq> [])"
| "truthy (PyDict kvs) = (kvs \<noteq> [])"

text \<open>
  \<^verbatim>\<open>d[k] = v\<close>: an existing key keeps its place and gets the new value, a new key goes
  last. The code only ever stores under the key \<^verbatim>\<open>'_permanent'\<close>, a \<^verbatim>\<open>str\<close>, which
  Python compares equal to a key exactly when that key is the same string.
\<close>

fun dict_setitem :: "pydict \<Rightarrow> pyval \<Rightarrow> pyval \<Rightarrow> pydict" where
  "dict_setitem [] k v = [(k, v)]"
| "dict_setitem ((k', v') # kvs) k v =
     (if k' = k then (k, v) # kvs else (k', v') # dict_setitem kvs k v)"

definition dict_get :: "pydict \<Rightarrow> pyval \<Rightarrow> pyval option" where
  "dict_get d k = map_of d k"

text \<open>
  A \<^verbatim>\<open>datetime\<close> is naive or aware. A naive one is counted in microseconds from
  \<^verbatim>\<open>datetime.min\<close> (0001-01-01T00:00:00); an aware one by the microseconds of its UTC
  instant. A \<^verbatim>\<open>timedelta\<close> is a number of microseconds.
\<close>

datatype datetime = Naive int | Aware int

type_synonym timedelta = int

definition days :: "int \<Rightarrow> timedelta" where
  "days n = n * 86400000000"

text \<open>\<^verbatim>\<open>datetime.max\<close> is 9999-12-31T23:59:59.999999, the last microsecond of day 3652059.\<close>

definition datetime_max :: int where
  "datetime_max = 3652059 * 86400000000 - 1"

text \<open>
  \<^verbatim>\<open>a < b\<close> on datetimes: comparing a naive with an aware one raises \<^verbatim>\<open>TypeError\<close>
  ("can't compare offset-naive and offset-aware datetimes").
\<close>

fun datetime_lt :: "datetime \<Rightarrow> datetime \<Rightarrow> pyerror + bool" where
  "datetime_lt (Naive a) (Naive b) = Inr (a < b)"
| "datetime_lt (Aware a) (Aware b) = Inr (a < b)"
| "datetime_lt (Naive a) (Aware b) = Inl TypeError"
| "datetime_lt (Aware a) (Naive b) = Inl TypeError"

text \<open>
  \<^verbatim>\<open>datetime.utcnow() + delta\<close>: \<^verbatim>\<open>utcnow()\<close> is naive; a result outside
  \<^verbatim>\<open>datetime.min .. datetime.max\<close> raises \<^verbatim>\<open>OverflowError\<close>.
\<close>

definition utcnow_plus :: "int \<Rightarrow> timedelta \<Rightarrow> pyerror + datetime" where
  "utcnow_plus now delta =
     (if 0 \<le> now + delta \<and> now + delta \<le> datetime_max then Inr (Naive (now + delta))
      else Inl OverflowError)"

text \<open>
  The parsers and the serialiser are library code (\<^verbatim>\<open>datetime\<close>, \<^verbatim>\<open>json\<close>, \<^verbatim>\<open>dict\<close>); the
  session code is verified for every behaviour they may have, so they are parameters:
  \<^item> \<open>fromisoformat\<close>: \<^verbatim>\<open>datetime.fromisoformat\<close>, \<open>None\<close> for its \<^verbatim>\<open>ValueError\<close>;
  \<^item> \<open>json_loads\<close>: \<^verbatim>\<open>json.loads\<close> on a \<^verbatim>\<open>str\<close>, \<open>None\<close> for \<^verbatim>\<open>json.JSONDecodeError\<close>;
  \<^item> \<open>json_dumps\<close>: \<^verbatim>\<open>json.dumps\<close> on a dict, \<open>None\<close> for its \<^verbatim>\<open>TypeError\<close>
    (a key or value that is not serialisable);
  \<^item> \<open>dict_of_list\<close>: \<^verbatim>\<open>dict(xs)\<close> on a list, which builds a dict when every element
    is a pair with a hashable first component and raises otherwise.
\<close>

record pylib =
  fromisoformat :: "string \<Rightarrow> datetime option"
  json_loads :: "string \<Rightarrow> pyval option"
  json_dumps :: "pydict \<Rightarrow> string option"
  dict_of_list :: "pyval list \<Rightarrow> pyerror + pydict"

text \<open>
  \<^verbatim>\<open>dict.__init__(self, x)\<close>, which \<^verbatim>\<open>CallbackDict.__init__\<close> calls on its first
  argument: a dict is copied; a list goes through \<open>dict_of_list\<close>; a non-empty string
  is a sequence of one-character strings, none of length 2 (\<^verbatim>\<open>ValueError\<close>); the other
  values are not iterable (\<^verbatim>\<open>TypeError\<close>).
\<close>

fun dict_init :: "pylib \<Rightarrow> pyval \<Rightarrow> pyerror + pydict" where
  "dict_init lib (PyDict kvs) = Inr kvs"
| "dict_init lib (PyList xs) = dict_of_list lib xs"
| "dict_init lib (PyStr s) = (if s = [] then Inr [] else Inl ValueError)"
| "dict_init lib PyNone = Inl TypeError"
| "dict_init lib (PyBool b) = Inl TypeError"
| "dict_init lib (PyInt n) = Inl TypeError"
| "dict_init lib (PyFloat f) = Inl TypeError"

text \<open>\<^verbatim>\<open>s.replace('Z', '+00:00')\<close>: every \<^verbatim>\<open>Z\<close> of the string becomes \<^verbatim>\<open>+00:00\<close>.\<close>

definition replace_Z :: "string \<Rightarrow> string" where
  "replace_Z s = concat (map (\<lambda>c. if c = CHR ''Z'' then ''+00:00'' else [c]) s)"

section \<open>The session object\<close>

text \<open>
  \<^verbatim>\<open>class DatabaseSession(CallbackDict, SessionMixin)\<close> is a dict with two attributes of
  its own, \<^verbatim>\<open>sid\<close> and \<^verbatim>\<open>modified\<close>. Flask's \<^verbatim>\<open>SessionMixin\<close> declares \<^verbatim>\<open>permanent\<close> as a
  property over the dict:
  \<^verbatim>\<open>
    @property
    def permanent(self):  return self.get("_permanent", False)
    @permanent.setter
    def permanent(self, value):  self["_permanent"] = bool(value)
  \<close>
  so the flag is the item \<^verbatim>\<open>'_permanent'\<close> of the session, and setting it is a dict
  update, which runs \<^verbatim>\<open>on_update\<close>.
\<close>

record session =
  items :: pydict
  sid :: string
  modified :: bool

definition permanent_key :: pyval where
  "permanent_key = PyStr ''_permanent''"

definition get_permanent :: "session \<Rightarrow> bool" where
  "get_permanent s =
     (case dict_get (items s) permanent_key of None \<Rightarrow> False | Some v \<Rightarrow> truthy v)"

definition on_update :: "session \<Rightarrow> session" where
  "on_update s = s\<lparr>modified := True\<rparr>"

definition set_permanent :: "session \<Rightarrow> bool \<Rightarrow> session" where
  "set_permanent s b = on_update (s\<lparr>items := dict_setitem (items s) permanent_key (PyBool b)\<rparr>)"

text \<open>
  \<^verbatim>\<open>DatabaseSession.__init__(self, initial=None, sid=None, permanent=False)\<close>:
  \<^verbatim>\<open>
    CallbackDict.__init__(self, initial or {}, on_update)
    self.sid = sid
    self.permanent = permanent
    self.modified = False
  \<close>
\<close>

definition DatabaseSession :: "pylib \<Rightarrow> pyval \<Rightarrow> string \<Rightarrow> bool \<Rightarrow> pyerror + session" where
  "DatabaseSession lib initial sid' permanent' =
     (case dict_init lib (if truthy initial then initial else PyDict []) of
        Inl e \<Rightarrow> Inl e
      | Inr d \<Rightarrow>
          Inr ((set_permanent \<lparr>items = d, sid = sid', modified = False\<rparr> permanent')
                 \<lparr>modified := False\<rparr>))"

section \<open>Configuration and the session interface\<close>

datatype samesite = Strict | Lax | SameSiteNone

text \<open>
  The keys of \<^verbatim>\<open>app.config\<close> the session code reads. A field is \<open>None\<close> when the key is
  not in the configuration, so that \<^verbatim>\<open>app.config.get(key, default)\<close> yields the default;
  a path, domain or same-site policy can itself be Python's \<^verbatim>\<open>None\<close>. Flask always defines
  \<^verbatim>\<open>SESSION_REFRESH_EACH_REQUEST\<close> and reads it with \<^verbatim>\<open>app.config[...]\<close>.
\<close>

record config =
  SESSION_PERMANENT :: "bool option"
  SESSION_COOKIE_NAME :: "string option"
  SESSION_COOKIE_PATH :: "string option option"
  SESSION_COOKIE_DOMAIN :: "string option option"
  SESSION_COOKIE_SECURE :: "bool option"
  SESSION_COOKIE_HTTPONLY :: "bool option"
  SESSION_COOKIE_SAMESITE :: "samesite option option"
  SESSION_MAX_AGE :: "timedelta option"
  SESSION_REFRESH_EACH_REQUEST :: bool

definition config_get :: "'a option \<Rightarrow> 'a \<Rightarrow> 'a" where
  "config_get entry dflt = (case entry of None \<Rightarrow> dflt | Some v \<Rightarrow> v)"

record interface =
  permanent :: bool
  cookie_name :: string
  cookie_path :: "string option"
  cookie_domain :: "string option"
  cookie_secure :: bool
  cookie_httponly :: bool
  cookie_samesite :: "samesite option"
  max_age :: timedelta

text \<open>\<^verbatim>\<open>DatabaseSessionInterface.__init__(self, app)\<close>.\<close>

definition DatabaseSessionInterface :: "config \<Rightarrow> interface" where
  "DatabaseSessionInterface app =
     \<lparr>permanent = config_get (SESSION_PERMANENT app) False,
      cookie_name = config_get (SESSION_COOKIE_NAME app) ''session'',
      cookie_path = config_get (SESSION_COOKIE_PATH app) (Some ''/''),
      cookie_domain = config_get (SESSION_COOKIE_DOMAIN app) None,
      cookie_secure = config_get (SESSION_COOKIE_SECURE app) True,
      cookie_httponly = config_get (SESSION_COOKIE_HTTPONLY app) True,
      cookie_samesite = config_get (SESSION_COOKIE_SAMESITE app) (Some SameSiteNone),
      max_age = config_get (SESSION_MAX_AGE app) (days 31)\<rparr>"

text \<open>
  The configuration \<^verbatim>\<open>create_app\<close> ends with when it is called without an argument:
  Flask's defaults (cookie name \<^verbatim>\<open>session\<close>, path \<^verbatim>\<open>None\<close>, refresh on each request),
  then the four assignments of \<^verbatim>\<open>create_app\<close>, then \<^verbatim>\<open>from_object\<close> of
  \<^verbatim>\<open>ProductionConfig\<close> or \<^verbatim>\<open>DevelopmentConfig\<close>. Both inherit
  \<^verbatim>\<open>SESSION_PERMANENT = True\<close> from \<^verbatim>\<open>Config\<close>; neither defines \<^verbatim>\<open>SESSION_MAX_AGE\<close>.
\<close>

definition create_app_config :: "bool \<Rightarrow> config" where
  "create_app_config production =
     \<lparr>SESSION_PERMANENT = Some True,
      SESSION_COOKIE_NAME = Some ''session'',
      SESSION_COOKIE_PATH = Some None,
      SESSION_COOKIE_DOMAIN = Some None,
      SESSION_COOKIE_SECURE = Some production,
      SESSION_COOKIE_HTTPONLY = Some True,
      SESSION_COOKIE_SAMESITE = Some (Some (if production then SameSiteNone else Lax)),
      SESSION_MAX_AGE = None,
      SESSION_REFRESH_EACH_REQUEST = True\<rparr>"

text \<open>
  \<^verbatim>\<open>SessionInterface.should_set_cookie\<close>, which the class inherits from Flask:
  \<^verbatim>\<open>
    return session.modified or (
        session.permanent and app.config["SESSION_REFRESH_EACH_REQUEST"])
  \<close>
\<close>

definition should_set_cookie :: "config \<Rightarrow> session \<Rightarrow> bool" where
  "should_set_cookie app s =
     (modified s \<or> (get_permanent s \<and> SESSION_REFRESH_EACH_REQUEST app))"

section \<open>Requests and responses\<close>

record request =
  req_cookies :: "(string \<times> string) list"
  req_headers :: "(string \<times> string) list"

text \<open>The arguments of \<^verbatim>\<open>response.set_cookie\<close>, which become one \<^verbatim>\<open>Set-Cookie\<close> header.\<close>

record cookie =
  ck_key :: string
  ck_content :: string
  ck_max_age :: "timedelta option"
  ck_expires :: "datetime option"
  ck_path :: "string option"
  ck_domain :: "string option"
  ck_secure :: bool
  ck_httponly :: bool
  ck_samesite :: "samesite option"

datatype header_value = Plain string | SetCookie cookie

record response =
  resp_headers :: "(string \<times> header_value) list"

text \<open>Header names compare without regard to case (\<^verbatim>\<open>str.lower\<close> on ASCII names).\<close>

definition lower_char :: "char \<Rightarrow> char" where
  "lower_char c =
     (case map_of (zip ''ABCDEFGHIJKLMNOPQRSTUVWXYZ'' ''abcdefghijklmnopqrstuvwxyz'') c of
        None \<Rightarrow> c | Some l \<Rightarrow> l)"

definition str_lower :: "string \<Rightarrow> string" where
  "str_lower s = map lower_char s"

text \<open>\<^verbatim>\<open>name in headers\<close>, \<^verbatim>\<open>headers.get(name)\<close> and \<^verbatim>\<open>headers.add(name, value)\<close>.\<close>

definition headers_contains :: "string \<Rightarrow> (string \<times> 'v) list \<Rightarrow> bool" where
  "headers_contains name hs = (str_lower name \<in> set (map (\<lambda>kv. str_lower (fst kv)) hs))"

definition headers_get :: "(string \<times> 'v) list \<Rightarrow> string \<Rightarrow> 'v option" where
  "headers_get hs name =
     map_option snd (find (\<lambda>kv. str_lower (fst kv) = str_lower name) hs)"

definition headers_add :: "string \<Rightarrow> string \<Rightarrow> response \<Rightarrow> response" where
  "headers_add name v r = r\<lparr>resp_headers := resp_headers r @ [(name, Plain v)]\<rparr>"

definition set_cookie :: "cookie \<Rightarrow> response \<Rightarrow> response" where
  "set_cookie c r = r\<lparr>resp_headers := resp_headers r @ [(''Set-Cookie'', SetCookie c)]\<rparr>"

section \<open>The session table\<close>

text \<open>
  Modelled from the spec: the table \<^verbatim>\<open>session\<close> is declared in \<^verbatim>\<open>app/models.py\<close>, which
  is not among the sources. The spec gives its columns: \<^verbatim>\<open>session_id\<close> (the key the
  queries match exactly), \<^verbatim>\<open>data\<close> (text) and \<^verbatim>\<open>expiry\<close> (timestamp). A column value is
  what the driver hands to Python: \<^verbatim>\<open>None\<close>, a \<^verbatim>\<open>str\<close> or a \<^verbatim>\<open>datetime\<close>;
  \<^verbatim>\<open>open_session\<close> itself tests \<^verbatim>\<open>isinstance(expiry, str)\<close>. The table is the list of its
  committed rows; a bound \<^verbatim>\<open>datetime\<close> parameter is stored as a timestamp.
\<close>

datatype dbval = DbNull | DbText string | DbTimestamp datetime

record row =
  session_id :: string
  data :: dbval
  expiry :: dbval

text \<open>
  The statements the code sends. Any of them can fail (the database is unreachable, the
  statement is refused), which raises; \<open>fails\<close> says which ones do in the call at hand.
\<close>

datatype db_op = Select | Update | Insert | Commit

text \<open>\<^verbatim>\<open>SELECT ... FROM session WHERE session_id = :sid\<close> with \<^verbatim>\<open>fetchone()\<close>.\<close>

definition select_session :: "row list \<Rightarrow> string \<Rightarrow> row option" where
  "select_session db sid' = find (\<lambda>r. session_id r = sid') db"

text \<open>\<^verbatim>\<open>UPDATE session SET data = :data, expiry = :expiry WHERE session_id = :sid\<close>.\<close>

definition update_session :: "row list \<Rightarrow> string \<Rightarrow> dbval \<Rightarrow> dbval \<Rightarrow> row list" where
  "update_session db sid' d e =
     map (\<lambda>r. if session_id r = sid' then r\<lparr>data := d, expiry := e\<rparr> else r) db"

text \<open>\<^verbatim>\<open>INSERT INTO session (session_id, data, expiry) VALUES (:sid, :data, :expiry)\<close>.\<close>

definition insert_session :: "row list \<Rightarrow> string \<Rightarrow> dbval \<Rightarrow> dbval \<Rightarrow> row list" where
  "insert_session db sid' d e = db @ [\<lparr>session_id = sid', data = d, expiry = e\<rparr>]"

section \<open>Session identifiers\<close>

text \<open>
  \<^verbatim>\<open>uuid.uuid4()\<close> is \<^verbatim>\<open>UUID(bytes=os.urandom(16), version=4)\<close>: the 128 random bits
  with the variant and version fields overwritten,
  \<^verbatim>\<open>
    int &= ~(0xc000 << 48);  int |= 0x8000 << 48
    int &= ~(0xf000 << 64);  int |= version << 76
  \<close>
  and \<^verbatim>\<open>str\<close> of it is \<^verbatim>\<open>'%032x' % int\<close> cut into groups of 8, 4, 4, 4 and 12 digits.
\<close>

definition uuid4 :: "128 word \<Rightarrow> 128 word" where
  "uuid4 rnd =
     (((rnd AND NOT (push_bit 48 0xc000)) OR push_bit 48 0x8000)
        AND NOT (push_bit 64 0xf000)) OR push_bit 76 4"

definition hex_digit :: "nat \<Rightarrow> char" where
  "hex_digit n = ''0123456789abcdef'' ! (n mod 16)"

definition hex32 :: "128 word \<Rightarrow> string" where
  "hex32 w = map (\<lambda>i. hex_digit (unat (drop_bit (4 * (31 - i)) w AND 15))) [0..<32]"

definition uuid_str :: "128 word \<Rightarrow> string" where
  "uuid_str u =
     (let h = hex32 u in
      take 8 h @ ''-'' @ take 4 (drop 8 h) @ ''-'' @ take 4 (drop 12 h) @ ''-'' @
      take 4 (drop 16 h) @ ''-'' @ drop 20 h)"

text \<open>\<^verbatim>\<open>_generate_sid\<close>: \<^verbatim>\<open>str(uuid.uuid4())\<close>, from the random bits the call draws.\<close>

definition generate_sid :: "128 word \<Rightarrow> string" where
  "generate_sid rnd = uuid_str (uuid4 rnd)"

section \<open>Resolving a session: \<^verbatim>\<open>open_session\<close>\<close>

text \<open>
  Lines 71 to 77: a \<^verbatim>\<open>str\<close> expiry is parsed, any other value is kept as it is.
  \<open>None\<close> is the \<^verbatim>\<open>except ValueError\<close> branch, which returns a new session.
  \<^verbatim>\<open>
    expiry = session_record.expiry
    if isinstance(expiry, str):
        try:
            expiry = datetime.fromisoformat(expiry.replace('Z', '+00:00'))
        except ValueError:
            return DatabaseSession(sid=sid, permanent=self.permanent)
  \<close>
\<close>

definition parse_expiry :: "pylib \<Rightarrow> dbval \<Rightarrow> dbval option" where
  "parse_expiry lib e =
     (case e of
        DbText s \<Rightarrow>
          (case fromisoformat lib (replace_Z s) of
             None \<Rightarrow> None
           | Some dt \<Rightarrow> Some (DbTimestamp dt))
      | _ \<Rightarrow> Some e)"

text \<open>
  Line 79, \<^verbatim>\<open>expiry < datetime.utcnow()\<close>: \<^verbatim>\<open>None < datetime\<close> and \<^verbatim>\<open>str < datetime\<close>
  raise \<^verbatim>\<open>TypeError\<close>, as a naive and an aware datetime do.
\<close>

definition expiry_lt_utcnow :: "dbval \<Rightarrow> int \<Rightarrow> pyerror + bool" where
  "expiry_lt_utcnow e now =
     (case e of
        DbTimestamp dt \<Rightarrow> datetime_lt dt (Naive now)
      | DbNull \<Rightarrow> Inl TypeError
      | DbText s \<Rightarrow> Inl TypeError)"

text \<open>
  Lines 83 to 91. \<^verbatim>\<open>json.loads(None)\<close> and \<^verbatim>\<open>json.loads\<close> of a datetime raise
  \<^verbatim>\<open>TypeError\<close>; the \<^verbatim>\<open>except\<close> clause catches \<^verbatim>\<open>json.JSONDecodeError\<close> (and \<^verbatim>\<open>KeyError\<close>,
  which nothing in the block raises), so what the constructor raises goes to the caller.
  \<^verbatim>\<open>
    try:
        session_data = json.loads(session_record.data)
        session = DatabaseSession(session_data, sid=sid, permanent=self.permanent)
        session.modified = False
        return session
    except (json.JSONDecodeError, KeyError) as e:
        return DatabaseSession(sid=sid, permanent=self.permanent)
  \<close>
\<close>

definition load_session :: "pylib \<Rightarrow> interface \<Rightarrow> string \<Rightarrow> dbval \<Rightarrow> pyerror + session" where
  "load_session lib self sid' d =
     (case d of
        DbText txt \<Rightarrow>
          (case json_loads lib txt of
             None \<Rightarrow> DatabaseSession lib PyNone sid' (permanent self)
           | Some session_data \<Rightarrow>
               (case DatabaseSession lib session_data sid' (permanent self) of
                  Inl e \<Rightarrow> Inl e
                | Inr s \<Rightarrow> Inr (s\<lparr>modified := False\<rparr>)))
      | DbNull \<Rightarrow> Inl TypeError
      | DbTimestamp dt \<Rightarrow> Inl TypeError)"

text \<open>
  \<^verbatim>\<open>open_session(self, app, request)\<close>, lines 51 to 91. Besides the interface and the
  request it reads the table \<open>db\<close>, the clock (\<open>now\<close>, what \<^verbatim>\<open>datetime.utcnow()\<close> returns)
  and the random bits \<open>rnd\<close> of \<^verbatim>\<open>uuid4\<close>. The logging calls have no effect on the result.
\<close>

definition open_session ::
  "pylib \<Rightarrow> interface \<Rightarrow> (db_op \<Rightarrow> bool) \<Rightarrow> row list \<Rightarrow> int \<Rightarrow> 128 word \<Rightarrow> request
     \<Rightarrow> pyerror + session" where
  "open_session lib self fails db now rnd req =
     (case map_of (req_cookies req) (cookie_name self) of
        None \<Rightarrow> DatabaseSession lib PyNone (generate_sid rnd) (permanent self)
      | Some sid' \<Rightarrow>
          if sid' = [] then DatabaseSession lib PyNone (generate_sid rnd) (permanent self)
          else if fails Select then Inl DatabaseError
          else
            (case select_session db sid' of
               None \<Rightarrow> DatabaseSession lib PyNone sid' (permanent self)
             | Some session_record \<Rightarrow>
                 (case parse_expiry lib (expiry session_record) of
                    None \<Rightarrow> DatabaseSession lib PyNone sid' (permanent self)
                  | Some expiry' \<Rightarrow>
                      (case expiry_lt_utcnow expiry' now of
                         Inl e \<Rightarrow> Inl e
                       | Inr True \<Rightarrow> DatabaseSession lib PyNone sid' (permanent self)
                       | Inr False \<Rightarrow> load_session lib self sid' (data session_record)))))"

section \<open>Persisting a session: \<^verbatim>\<open>save_session\<close>\<close>

text \<open>The cookie of lines 124 to 134.\<close>

definition session_cookie :: "interface \<Rightarrow> session \<Rightarrow> datetime \<Rightarrow> cookie" where
  "session_cookie self s expiry' =
     \<lparr>ck_key = cookie_name self,
      ck_content = sid s,
      ck_max_age = (if get_permanent s then Some (max_age self) else None),
      ck_expires = (if get_permanent s then Some expiry' else None),
      ck_path = cookie_path self,
      ck_domain = cookie_domain self,
      ck_secure = cookie_secure self,
      ck_httponly = cookie_httponly self,
      ck_samesite = cookie_samesite self\<rparr>"

text \<open>
  \<^verbatim>\<open>save_session(self, app, session, response)\<close>, lines 93 to 134. The call changes the
  table and the response, so the model takes both and returns them with the exception
  raised, if any: \<open>(raised, db', response')\<close>. An exception leaves the response as it was
  (\<^verbatim>\<open>set_cookie\<close> is the last statement) and the table as committed before the call (the
  \<^verbatim>\<open>UPDATE\<close> or \<^verbatim>\<open>INSERT\<close> is part of a transaction that \<^verbatim>\<open>commit()\<close> did not complete).
\<close>

definition save_session ::
  "pylib \<Rightarrow> interface \<Rightarrow> config \<Rightarrow> (db_op \<Rightarrow> bool) \<Rightarrow> int \<Rightarrow> session
     \<Rightarrow> row list \<times> response \<Rightarrow> pyerror option \<times> row list \<times> response" where
  "save_session lib self app fails now s st =
     (let db = fst st; resp = snd st in
      if \<not> should_set_cookie app s then (None, db, resp)
      else
        (case (if get_permanent s then utcnow_plus now (max_age self)
               else utcnow_plus now (days 1)) of
           Inl e \<Rightarrow> (Some e, db, resp)
         | Inr expiry' \<Rightarrow>
             (case json_dumps lib (items s) of
                None \<Rightarrow> (Some TypeError, db, resp)
              | Some session_data \<Rightarrow>
                  if fails Select then (Some DatabaseError, db, resp)
                  else
                    (let existing = select_session db (sid s);
                         wr = (if existing \<noteq> None then Update else Insert);
                         db' = (if existing \<noteq> None
                                then update_session db (sid s) (DbText session_data)
                                       (DbTimestamp expiry')
                                else insert_session db (sid s) (DbText session_data)
                                       (DbTimestamp expiry'))
                     in if fails wr then (Some DatabaseError, db, resp)
                        else if fails Commit then (Some DatabaseError, db, resp)
                        else (None, db', set_cookie (session_cookie self s expiry') resp)))))"

section \<open>Cross-origin headers\<close>

text \<open>The list \<^verbatim>\<open>allowed_origins\<close> of \<^verbatim>\<open>create_app\<close>, lines 148 to 153.\<close>

definition allowed_origins :: "string list" where
  "allowed_origins =
     [''http://localhost:5173'',
      ''http://127.0.0.1:5173'',
      ''https://smart-hire-beta.vercel.app'',
      ''https://smart-hire-beta.vercel.app/'']"

text \<open>The five \<^verbatim>\<open>response.headers.add\<close> calls that both hooks make, in their order.\<close>

definition add_cors_headers :: "string \<Rightarrow> response \<Rightarrow> response" where
  "add_cors_headers origin r =
     headers_add ''Access-Control-Max-Age'' ''86400''
       (headers_add ''Access-Control-Allow-Credentials'' ''true''
          (headers_add ''Access-Control-Allow-Methods'' ''GET,POST,PUT,DELETE,OPTIONS,PATCH''
             (headers_add ''Access-Control-Allow-Headers''
                ''Content-Type,Authorization,X-Requested-With,Accept''
                (headers_add ''Access-Control-Allow-Origin'' origin r))))"

text \<open>
  \<^verbatim>\<open>after_request(response)\<close>, lines 165 to 175. \<^verbatim>\<open>request.headers.get('Origin')\<close> is
  \<^verbatim>\<open>None\<close> when the request has no such header, and \<^verbatim>\<open>None\<close> is not in the list.
\<close>

definition after_request :: "request \<Rightarrow> response \<Rightarrow> response" where
  "after_request req r =
     (if \<not> headers_contains ''Access-Control-Allow-Origin'' (resp_headers r) then
        (case headers_get (req_headers req) ''Origin'' of
           None \<Rightarrow> r
         | Some origin \<Rightarrow> if origin \<in> set allowed_origins then add_cors_headers origin r else r)
      else r)"

text \<open>
  \<^verbatim>\<open>handle_options(path)\<close>, lines 177 to 188; \<open>dflt\<close> is the response that
  \<^verbatim>\<open>app.make_default_options_response()\<close> builds.
\<close>

definition handle_options :: "request \<Rightarrow> response \<Rightarrow> response" where
  "handle_options req dflt =
     (case headers_get (req_headers req) ''Origin'' of
        None \<Rightarrow> dflt
      | Some origin \<Rightarrow> if origin \<in> set allowed_origins then add_cors_headers origin dflt else dflt)"

section \<open>Examples: a library and two fault patterns\<close>

text \<open>
  The theorems below hold for every library. The examples run the code with \<open>lib0\<close>,
  which answers as Python does on the few strings and dicts the examples use:
  \<^verbatim>\<open>datetime.fromisoformat('2030-01-01T00:00:00+00:00')\<close> is the aware datetime
  2030-01-01 00:00 UTC, \<^verbatim>\<open>json.dumps({"a": 1})\<close> is \<^verbatim>\<open>'{"a": 1}'\<close>, and so on. Outside
  these inputs \<open>lib0\<close> reports the library's error.
\<close>

definition lib0 :: pylib where
  \<open>lib0 =
     \<lparr>fromisoformat =
        (\<lambda>s. if s = ''2030-01-01T00:00:00+00:00'' then Some (Aware 64029052800000000)
             else if s = ''2020-01-01T00:00:00+00:00'' then Some (Aware 63713433600000000)
             else None),
      json_loads =
        (\<lambda>s. if s = ''{"a": 1}'' then Some (PyDict [(PyStr ''a'', PyInt 1)])
             else if s = ''{"a": 1, "_permanent": false}''
               then Some (PyDict [(PyStr ''a'', PyInt 1), (PyStr ''_permanent'', PyBool False)])
             else if s = ''{"a": 1, "_permanent": true}''
               then Some (PyDict [(PyStr ''a'', PyInt 1), (PyStr ''_permanent'', PyBool True)])
             else None),
      json_dumps =
        (\<lambda>d. if d = [(PyStr ''a'', PyInt 1)] then Some ''{"a": 1}''
             else if d = [(PyStr ''a'', PyInt 1), (PyStr ''_permanent'', PyBool True)]
               then Some ''{"a": 1, "_permanent": true}''
             else if d = [(PyStr ''a'', PyInt 1), (PyStr ''_permanent'', PyBool False)]
               then Some ''{"a": 1, "_permanent": false}''
             else None),
      dict_of_list = (\<lambda>xs. if xs = [] then Inr [] else Inl TypeError)\<rparr>\<close>

text \<open>No statement fails; only \<^verbatim>\<open>commit()\<close> fails.\<close>

definition no_faults :: "db_op \<Rightarrow> bool" where
  "no_faults op = False"

definition commit_fails :: "db_op \<Rightarrow> bool" where
  "commit_fails op = (op = Commit)"

section \<open>Facts about the session object and the table\<close>

lemmas run_defs =
  save_session_def open_session_def should_set_cookie_def get_permanent_def dict_get_def
  permanent_key_def utcnow_plus_def days_def datetime_max_def lib0_def select_session_def
  update_session_def insert_session_def set_cookie_def session_cookie_def
  DatabaseSessionInterface_def create_app_config_def config_get_def no_faults_def
  commit_fails_def Let_def parse_expiry_def expiry_lt_utcnow_def load_session_def
  DatabaseSession_def set_permanent_def on_update_def replace_Z_def

lemma dict_get_setitem: "dict_get (dict_setitem d k v) k = Some v"
  by (induction d) (auto simp: dict_get_def)

text \<open>A session built without initial data holds the \<^verbatim>\<open>_permanent\<close> item and nothing else.\<close>

lemma new_session:
  "DatabaseSession lib PyNone sid' p =
     Inr \<lparr>items = [(permanent_key, PyBool p)], sid = sid', modified = False\<rparr>"
  by (simp add: DatabaseSession_def set_permanent_def on_update_def)

lemma DatabaseSession_dict:
  "DatabaseSession lib (PyDict d) sid' p =
     Inr \<lparr>items = dict_setitem d permanent_key (PyBool p), sid = sid', modified = False\<rparr>"
  by (cases d) (simp_all add: DatabaseSession_def set_permanent_def on_update_def)

lemma DatabaseSession_Inr:
  assumes "DatabaseSession lib v sid' p = Inr s"
  shows "get_permanent s = p \<and> dict_get (items s) permanent_key = Some (PyBool p) \<and>
         sid s = sid' \<and> modified s = False"
  using assms
  by (auto simp: DatabaseSession_def set_permanent_def on_update_def get_permanent_def
      dict_get_setitem split: sum.splits)

lemma load_session_Inr:
  assumes "load_session lib self sid' d = Inr s"
  shows "get_permanent s = permanent self \<and>
         dict_get (items s) permanent_key = Some (PyBool (permanent self)) \<and>
         sid s = sid' \<and> modified s = False"
  using assms
  by (auto simp: load_session_def get_permanent_def dest!: DatabaseSession_Inr
      split: dbval.splits option.splits sum.splits)

lemma length_generate_sid: "length (generate_sid rnd) = 36"
  by (simp add: generate_sid_def uuid_str_def hex32_def Let_def)

lemma generate_sid_zero: "generate_sid 0 = ''00000000-0000-4000-8000-000000000000''"
  by code_simp

lemma generate_sid_one: "generate_sid 1 = ''00000000-0000-4000-8000-000000000001''"
  by code_simp

text \<open>
  The identifier determines the random bits, up to the six that \<^verbatim>\<open>uuid4\<close> overwrites:
  a hexadecimal digit determines its four bits, the 32 digits determine the word, and
  the dashes stand at fixed places.
\<close>

lemma hex_digit_inj:
  assumes "m < 16" and "n < 16" and "hex_digit m = hex_digit n"
  shows "m = n"
proof -
  have d: "distinct ''0123456789abcdef''" by simp
  have l: "length ''0123456789abcdef'' = 16" by simp
  from assms show ?thesis
    using nth_eq_iff_index_eq [OF d, of m n] l by (simp add: hex_digit_def)
qed

lemma nibble_less: "unat ((w :: 128 word) AND 15) < 16"
proof -
  have "w AND 15 \<le> 15" by (rule word_and_le1)
  then have "unat (w AND 15) \<le> unat (15 :: 128 word)" by (simp add: word_le_nat_alt)
  then show ?thesis by simp
qed

lemma hex32_inj:
  assumes "hex32 a = hex32 b"
  shows "a = b"
proof (rule bit_word_eqI)
  fix n
  assume "n < LENGTH(128)"
  then have n: "n < 128" by simp
  let ?i = "31 - n div 4"
  have i: "?i \<in> set [0..<32]" by simp
  from assms have "\<forall>i \<in> set [0..<32].
      hex_digit (unat (drop_bit (4 * (31 - i)) a AND 15)) =
      hex_digit (unat (drop_bit (4 * (31 - i)) b AND 15))"
    by (simp add: hex32_def)
  with i have "hex_digit (unat (drop_bit (4 * (31 - ?i)) a AND 15)) =
      hex_digit (unat (drop_bit (4 * (31 - ?i)) b AND 15))"
    by blast
  then have "unat (drop_bit (4 * (31 - ?i)) a AND 15) = unat (drop_bit (4 * (31 - ?i)) b AND 15)"
    by (rule hex_digit_inj [OF nibble_less nibble_less])
  then have eq: "drop_bit (4 * (31 - ?i)) a AND 15 = drop_bit (4 * (31 - ?i)) b AND 15"
    by (simp add: word_unat_eq_iff)
  have k: "4 * (31 - ?i) = 4 * (n div 4)" using n by simp
  have m: "(15 :: 128 word) = mask 4" by (simp add: mask_eq_exp_minus_1)
  have "bit (drop_bit (4 * (n div 4)) a AND 15) (n mod 4) = bit (drop_bit (4 * (n div 4)) b AND 15) (n mod 4)"
    using eq k by simp
  moreover have "n mod 4 < 128"
    using mod_less_divisor [of 4 n] by linarith
  ultimately show "bit a n = bit b n"
    by (simp add: m bit_and_iff bit_drop_bit_eq bit_mask_iff)
qed


lemma length_hex32: "length (hex32 u) = 32"
  by (simp add: hex32_def)

lemma split_hex:
  assumes "length h = 32"
  shows "h = take 8 h @ take 4 (drop 8 h) @ take 4 (drop 12 h) @ take 4 (drop 16 h) @ drop 20 h"
proof -
  have "drop 16 h = take 4 (drop 16 h) @ drop 20 h"
    using append_take_drop_id [of 4 "drop 16 h"] by simp
  moreover have "drop 12 h = take 4 (drop 12 h) @ drop 16 h"
    using append_take_drop_id [of 4 "drop 12 h"] by simp
  moreover have "drop 8 h = take 4 (drop 8 h) @ drop 12 h"
    using append_take_drop_id [of 4 "drop 8 h"] by simp
  moreover have "h = take 8 h @ drop 8 h" by simp
  ultimately show ?thesis by metis
qed

lemma uuid_str_inj:
  assumes "uuid_str u = uuid_str v"
  shows "u = v"
proof -
  let ?h = "hex32 u" and ?k = "hex32 v"
  from assms have "take 8 ?h = take 8 ?k \<and> take 4 (drop 8 ?h) = take 4 (drop 8 ?k) \<and>
      take 4 (drop 12 ?h) = take 4 (drop 12 ?k) \<and> take 4 (drop 16 ?h) = take 4 (drop 16 ?k) \<and>
      drop 20 ?h = drop 20 ?k"
    by (simp add: uuid_str_def Let_def length_hex32)
  then have "?h = ?k"
    using split_hex [OF length_hex32, of u] split_hex [OF length_hex32, of v] by metis
  then show ?thesis by (rule hex32_inj)
qed

lemma overwrite_fields:
  fixes a b A A' B B' :: "128 word"
  assumes "A' AND NOT A = 0" and "B' AND NOT B = 0"
  shows "((((a AND NOT A) OR A') AND NOT B) OR B' = (((b AND NOT A) OR A') AND NOT B) OR B') \<longleftrightarrow>
         (a AND NOT A AND NOT B = b AND NOT A AND NOT B)"
proof -
  have s1: "bit A n" if "bit A' n" for n
  proof -
    from assms(1) have "bit (A' AND NOT A) n = bit (0 :: 128 word) n" by simp
    with that bit_imp_le_length [OF that] show ?thesis by (simp add: bit_and_iff bit_not_iff)
  qed
  have s2: "bit B n" if "bit B' n" for n
  proof -
    from assms(2) have "bit (B' AND NOT B) n = bit (0 :: 128 word) n" by simp
    with that bit_imp_le_length [OF that] show ?thesis by (simp add: bit_and_iff bit_not_iff)
  qed
  have pointwise:
    "(((bit a n \<and> \<not> bit A n \<or> bit A' n) \<and> \<not> bit B n \<or> bit B' n) =
      ((bit b n \<and> \<not> bit A n \<or> bit A' n) \<and> \<not> bit B n \<or> bit B' n)) =
     ((bit a n \<and> \<not> bit A n \<and> \<not> bit B n) = (bit b n \<and> \<not> bit A n \<and> \<not> bit B n))"
    for n
    using s1 [of n] s2 [of n] by blast
  show ?thesis
    by (simp add: bit_eq_iff bit_and_iff bit_or_iff bit_not_iff pointwise)
qed

lemma uuid4_keeps:
  "uuid4 a = uuid4 b \<longleftrightarrow>
     a AND NOT (push_bit 48 0xc000) AND NOT (push_bit 64 0xf000) =
     b AND NOT (push_bit 48 0xc000) AND NOT (push_bit 64 0xf000)"
proof -
  have 1: "push_bit 48 (0x8000 :: 128 word) AND NOT (push_bit 48 0xc000) = 0" by simp
  have 2: "push_bit 76 (4 :: 128 word) AND NOT (push_bit 64 0xf000) = 0" by simp
  show ?thesis
    unfolding uuid4_def by (rule overwrite_fields [OF 1 2])
qed

lemma generate_sid_eq_iff:
  "generate_sid a = generate_sid b \<longleftrightarrow>
     a AND NOT (push_bit 48 0xc000) AND NOT (push_bit 64 0xf000) =
     b AND NOT (push_bit 48 0xc000) AND NOT (push_bit 64 0xf000)"
  using uuid4_keeps [of a b] uuid_str_inj [of "uuid4 a" "uuid4 b"]
  by (auto simp: generate_sid_def)

lemma select_session_Some:
  "select_session db k = Some r \<Longrightarrow> r \<in> set db \<and> session_id r = k"
  by (auto simp: select_session_def find_Some_iff)

lemma select_session_None:
  "select_session db k = None \<longleftrightarrow> k \<notin> set (map session_id db)"
  by (auto simp: select_session_def find_None_iff)

lemma session_id_update: "map session_id (update_session db k d e) = map session_id db"
  by (induction db) (auto simp: update_session_def)

lemma session_id_insert: "map session_id (insert_session db k d e) = map session_id db @ [k]"
  by (simp add: insert_session_def)

lemma select_update:
  "select_session db k = Some r \<Longrightarrow>
   select_session (update_session db k d e) k = Some (r\<lparr>data := d, expiry := e\<rparr>)"
  by (induction db) (auto simp: select_session_def update_session_def)

lemma select_insert:
  "select_session db k = None \<Longrightarrow>
   select_session (insert_session db k d e) k = Some \<lparr>session_id = k, data = d, expiry = e\<rparr>"
  by (induction db) (auto simp: select_session_def insert_session_def)

lemma filter_update:
  "filter (\<lambda>r. session_id r = k) (update_session db k d e) =
   map (\<lambda>r. r\<lparr>data := d, expiry := e\<rparr>) (filter (\<lambda>r. session_id r = k) db)"
  by (induction db) (auto simp: update_session_def)

text \<open>With one row per identifier at most, the row that \<^verbatim>\<open>fetchone()\<close> returns is the only one.\<close>

lemma filter_distinct_Some:
  "distinct (map session_id db) \<Longrightarrow> select_session db k = Some r \<Longrightarrow>
   filter (\<lambda>r. session_id r = k) db = [r]"
proof (induction db)
  case Nil
  then show ?case by (simp add: select_session_def)
next
  case (Cons x xs)
  show ?case
  proof (cases "session_id x = k")
    case True
    with Cons.prems have "r = x" and "k \<notin> session_id ` set xs"
      by (auto simp: select_session_def)
    then have "filter (\<lambda>r. session_id r = k) xs = []"
      by (auto simp: filter_empty_conv)
    with True \<open>r = x\<close> show ?thesis by simp
  next
    case False
    with Cons show ?thesis by (auto simp: select_session_def)
  qed
qed

lemma filter_None:
  "select_session db k = None \<Longrightarrow> filter (\<lambda>r. session_id r = k) db = []"
  by (auto simp: select_session_None filter_empty_conv)

lemma utcnow_plus_Inr:
  "utcnow_plus now d = Inr x \<Longrightarrow> x = Naive (now + d)"
  by (auto simp: utcnow_plus_def split: if_splits)

text \<open>What a call of \<open>save_session\<close> that passed the gate and did not raise went through.\<close>

lemma save_session_persisted:
  assumes "should_set_cookie app s"
    and "save_session lib self app fails now s (db, resp) = (None, db', resp')"
  shows "\<exists>session_data.
           json_dumps lib (items s) = Some session_data \<and>
           \<not> fails Select \<and> \<not> fails Commit \<and>
           db' = (if select_session db (sid s) \<noteq> None
                  then update_session db (sid s) (DbText session_data)
                         (DbTimestamp (Naive (now + (if get_permanent s then max_age self else days 1))))
                  else insert_session db (sid s) (DbText session_data)
                         (DbTimestamp (Naive (now + (if get_permanent s then max_age self else days 1))))) \<and>
           resp' = set_cookie (session_cookie self s
                      (Naive (now + (if get_permanent s then max_age self else days 1)))) resp"
  using assms
  by (auto simp: save_session_def Let_def dest!: utcnow_plus_Inr
      split: if_splits sum.splits option.splits)

lemma persisted_row:
  assumes "should_set_cookie app s"
    and "save_session lib self app fails now s (db, resp) = (None, db', resp')"
    and "json_dumps lib (items s) = Some session_data"
  shows "\<exists>r. select_session db' (sid s) = Some r \<and> data r = DbText session_data \<and>
             expiry r = DbTimestamp (Naive (now + (if get_permanent s then max_age self else days 1)))"
proof -
  let ?e = "DbTimestamp (Naive (now + (if get_permanent s then max_age self else days 1)))"
  from save_session_persisted [OF assms(1,2)] assms(3)
  have db': "db' = (if select_session db (sid s) \<noteq> None
                 then update_session db (sid s) (DbText session_data) ?e
                 else insert_session db (sid s) (DbText session_data) ?e)"
    by auto
  show ?thesis
  proof (cases "select_session db (sid s)")
    case None
    with db' show ?thesis by (simp add: select_insert)
  next
    case (Some r)
    with db' show ?thesis by (simp add: select_update)
  qed
qed

lemma save_session_distinct:
  assumes "distinct (map session_id db)"
  shows "distinct (map session_id (fst (snd (save_session lib self app fails now s (db, resp)))))"
  using assms
  by (auto simp: save_session_def Let_def session_id_update session_id_insert select_session_None
      split: sum.splits option.splits)

text \<open>
  A persisted session resolves again, up to and including its expiry, as the dict that
  was serialised with the \<^verbatim>\<open>_permanent\<close> item set anew by the constructor. The two library
  hypotheses say that \<^verbatim>\<open>json.loads\<close> undoes \<^verbatim>\<open>json.dumps\<close> on this dict.
\<close>

lemma roundtrip:
  assumes gate: "should_set_cookie app s"
    and saved: "save_session lib self app fails now s (db, resp) = (None, db', resp')"
    and dumps: "json_dumps lib (items s) = Some session_data"
    and loads: "json_loads lib session_data = Some (PyDict (items s))"
    and cookie: "map_of (req_cookies req) (cookie_name self) = Some (sid s)" "sid s \<noteq> []"
    and up: "\<not> fails' Select"
    and live: "now' \<le> now + (if get_permanent s then max_age self else days 1)"
  shows "open_session lib self fails' db' now' rnd req =
           Inr \<lparr>items = dict_setitem (items s) permanent_key (PyBool (permanent self)),
                sid = sid s, modified = False\<rparr>"
proof -
  let ?e = "DbTimestamp (Naive (now + (if get_permanent s then max_age self else days 1)))"
  from persisted_row [OF gate saved dumps]
  obtain r where r: "select_session db' (sid s) = Some r" "data r = DbText session_data"
    "expiry r = ?e" by blast
  show ?thesis
    using cookie up r live loads
    by (simp add: open_session_def parse_expiry_def expiry_lt_utcnow_def load_session_def
        DatabaseSession_dict not_less [symmetric])
qed

lemma headers_contains_add_cors:
  "headers_contains ''Access-Control-Allow-Origin'' (resp_headers (add_cors_headers origin r))"
  by (simp add: headers_contains_def add_cors_headers_def headers_add_def)

lemma resp_headers_add_cors:
  "resp_headers (add_cors_headers origin r) =
     resp_headers r @
       [(''Access-Control-Allow-Origin'', Plain origin),
        (''Access-Control-Allow-Headers'',
         Plain ''Content-Type,Authorization,X-Requested-With,Accept''),
        (''Access-Control-Allow-Methods'', Plain ''GET,POST,PUT,DELETE,OPTIONS,PATCH''),
        (''Access-Control-Allow-Credentials'', Plain ''true''),
        (''Access-Control-Max-Age'', Plain ''86400'')]"
  by (simp add: add_cors_headers_def headers_add_def)

section \<open>Session resolution\<close>

text \<open>
  Claim C1 says that \<open>open_session\<close> never raises, whatever the stored record holds. The
  code falls short of it on a record whose expiry is a text ending in \<^verbatim>\<open>Z\<close>: line 74
  rewrites the \<^verbatim>\<open>Z\<close> to \<^verbatim>\<open>+00:00\<close>, \<^verbatim>\<open>fromisoformat\<close> then returns an aware datetime, and
  line 79 compares it with the naive \<^verbatim>\<open>datetime.utcnow()\<close>. The comparison raises
  \<^verbatim>\<open>TypeError\<close>, which no \<^verbatim>\<open>except\<close> clause of the function catches: whenever the parsed
  expiry is aware, the call ends in that exception instead of a session.
\<close>

theorem open_session_aware_expiry_raises:
  assumes "map_of (req_cookies req) (cookie_name self) = Some sid'" and "sid' \<noteq> []"
    and "\<not> fails Select" and "select_session db sid' = Some r"
    and "expiry r = DbText stamp" and "fromisoformat lib (replace_Z stamp) = Some (Aware t)"
  shows "open_session lib self fails db now rnd req = Inl TypeError"
  using assms by (simp add: open_session_def parse_expiry_def expiry_lt_utcnow_def)

text \<open>
  The failing input: the cookie \<^verbatim>\<open>session=s1\<close> and the row
  \<^verbatim>\<open>('s1', '{"a": 1}', '2030-01-01T00:00:00Z')\<close>, resolved on 2026-01-01.
\<close>

theorem open_session_aware_expiry_raises_witness:
  \<open>open_session lib0 (DatabaseSessionInterface (create_app_config True)) no_faults
     [\<lparr>session_id = ''s1'', data = DbText ''{"a": 1}'',
       expiry = DbText ''2030-01-01T00:00:00Z''\<rparr>]
     63902822400000000 0 \<lparr>req_cookies = [(''session'', ''s1'')], req_headers = []\<rparr>
   = Inl TypeError\<close>
  using open_session_aware_expiry_raises
    [where lib = lib0 and self = "DatabaseSessionInterface (create_app_config True)"
      and fails = no_faults and sid' = "''s1''" and stamp = "''2030-01-01T00:00:00Z''"
      and t = 64029052800000000 and now = 63902822400000000 and rnd = 0
      and req = "\<lparr>req_cookies = [(''session'', ''s1'')], req_headers = []\<rparr>"
      and db = \<open>[\<lparr>session_id = ''s1'', data = DbText ''{"a": 1}'',
                 expiry = DbText ''2030-01-01T00:00:00Z''\<rparr>]\<close>
      and r = \<open>\<lparr>session_id = ''s1'', data = DbText ''{"a": 1}'',
                 expiry = DbText ''2030-01-01T00:00:00Z''\<rparr>\<close>]
  by (simp add: DatabaseSessionInterface_def create_app_config_def config_get_def no_faults_def
       select_session_def lib0_def replace_Z_def)

text \<open>
  A stored record whose expiry is a naive timestamp \<open>e\<close>, stored as such or parsed from
  text, with \<open>e < now\<close>, resolves to a new session: the one the constructor builds from
  no initial data (it holds only the \<^verbatim>\<open>_permanent\<close> item that the constructor writes)
  under the identifier of the cookie. The \<^verbatim>\<open>data\<close> column of the record does not occur
  in it.
\<close>

lemma open_session_expired_naive:
  assumes "map_of (req_cookies req) (cookie_name self) = Some sid'" and "sid' \<noteq> []"
    and "\<not> fails Select" and "select_session db sid' = Some r"
    and "parse_expiry lib (expiry r) = Some (DbTimestamp (Naive e))" and "e < now"
  shows "open_session lib self fails db now rnd req =
           Inr \<lparr>items = [(permanent_key, PyBool (permanent self))], sid = sid',
                modified = False\<rparr>"
  using assms by (simp add: open_session_def expiry_lt_utcnow_def new_session)

text \<open>The boundary: an expiry exactly one second (1000000 microseconds) before now.\<close>

lemma open_session_expired_one_second_ago:
  \<open>open_session lib0 (DatabaseSessionInterface (create_app_config True)) no_faults
     [\<lparr>session_id = ''s1'', data = DbText ''{"a": 1}'',
       expiry = DbTimestamp (Naive (63902822400000000 - 1000000))\<rparr>]
     63902822400000000 0 \<lparr>req_cookies = [(''session'', ''s1'')], req_headers = []\<rparr>
   = Inr \<lparr>items = [(PyStr ''_permanent'', PyBool True)], sid = ''s1'', modified = False\<rparr>\<close>
  using open_session_expired_naive
    [where lib = lib0 and self = "DatabaseSessionInterface (create_app_config True)"
      and fails = no_faults and sid' = "''s1''" and e = "63902822400000000 - 1000000"
      and now = 63902822400000000 and rnd = 0
      and req = "\<lparr>req_cookies = [(''session'', ''s1'')], req_headers = []\<rparr>"
      and db = \<open>[\<lparr>session_id = ''s1'', data = DbText ''{"a": 1}'',
                 expiry = DbTimestamp (Naive (63902822400000000 - 1000000))\<rparr>]\<close>
      and r = \<open>\<lparr>session_id = ''s1'', data = DbText ''{"a": 1}'',
                 expiry = DbTimestamp (Naive (63902822400000000 - 1000000))\<rparr>\<close>]
  by (simp add: DatabaseSessionInterface_def create_app_config_def config_get_def no_faults_def
       select_session_def parse_expiry_def permanent_key_def)

text \<open>
  Claim C4 says that every stored record whose expiry lies strictly in the past resolves
  to a new session. The code does so when the expiry is naive (the lemma above). A
  record whose past expiry is aware, as a text written with \<^verbatim>\<open>Z\<close> or with an offset
  parses to, does not resolve at all: line 79 compares the aware expiry with the naive
  \<^verbatim>\<open>datetime.utcnow()\<close> and raises \<^verbatim>\<open>TypeError\<close>, so the caller gets neither the stored
  data nor the new session the claim promises. This is the defect of C1, met on an
  expired record.
\<close>

theorem open_session_expired_aware_raises:
  assumes "map_of (req_cookies req) (cookie_name self) = Some sid'" and "sid' \<noteq> []"
    and "\<not> fails Select" and "select_session db sid' = Some r"
    and "parse_expiry lib (expiry r) = Some (DbTimestamp (Aware e))" and "e < now"
  shows "open_session lib self fails db now rnd req = Inl TypeError"
  using assms by (simp add: open_session_def expiry_lt_utcnow_def)

text \<open>
  The failing input: the cookie \<^verbatim>\<open>session=s1\<close> and the row
  \<^verbatim>\<open>('s1', '{"a": 1}', '2020-01-01T00:00:00Z')\<close>, resolved on 2026-01-01, six years
  after the expiry.
\<close>

theorem open_session_expired_aware_raises_witness:
  \<open>open_session lib0 (DatabaseSessionInterface (create_app_config True)) no_faults
     [\<lparr>session_id = ''s1'', data = DbText ''{"a": 1}'',
       expiry = DbText ''2020-01-01T00:00:00Z''\<rparr>]
     63902822400000000 0 \<lparr>req_cookies = [(''session'', ''s1'')], req_headers = []\<rparr>
   = Inl TypeError\<close>
  using open_session_expired_aware_raises
    [where lib = lib0 and self = "DatabaseSessionInterface (create_app_config True)"
      and fails = no_faults and sid' = "''s1''" and e = 63713433600000000
      and now = 63902822400000000 and rnd = 0
      and req = "\<lparr>req_cookies = [(''session'', ''s1'')], req_headers = []\<rparr>"
      and db = \<open>[\<lparr>session_id = ''s1'', data = DbText ''{"a": 1}'',
                 expiry = DbText ''2020-01-01T00:00:00Z''\<rparr>]\<close>
      and r = \<open>\<lparr>session_id = ''s1'', data = DbText ''{"a": 1}'',
                 expiry = DbText ''2020-01-01T00:00:00Z''\<rparr>\<close>]
  by (simp add: DatabaseSessionInterface_def create_app_config_def config_get_def no_faults_def
       select_session_def parse_expiry_def lib0_def replace_Z_def)

text \<open>
  Claim C9: a request that carries no session cookie (or an empty one, which
  \<^verbatim>\<open>if not sid\<close> treats alike) gets a session whose \<^verbatim>\<open>modified\<close> flag is false and whose
  identifier is generated for this call: it is \<^verbatim>\<open>str(uuid.uuid4())\<close> of the random bits
  the call draws, a string of 36 characters and so not empty, and another such
  resolution gets the same identifier exactly when its random bits agree on the 122
  bits that \<^verbatim>\<open>uuid4\<close> keeps (all but the variant bits 62, 63 and the version bits 76 to
  79). The table is not read, so no database fault can disturb this.
\<close>

theorem open_session_no_cookie:
  assumes "map_of (req_cookies req) (cookie_name self) = None \<or>
           map_of (req_cookies req) (cookie_name self) = Some []"
  shows "\<exists>s. open_session lib self fails db now rnd req = Inr s \<and>
             sid s = generate_sid rnd \<and> sid s \<noteq> [] \<and> length (sid s) = 36 \<and>
             modified s = False \<and>
             (\<forall>rnd' s'. open_session lib self fails db now rnd' req = Inr s' \<longrightarrow>
                (sid s' = sid s) =
                (rnd' AND NOT (push_bit 48 0xc000) AND NOT (push_bit 64 0xf000) =
                 rnd AND NOT (push_bit 48 0xc000) AND NOT (push_bit 64 0xf000)))"
proof -
  have fresh: "open_session lib self fails db now x req =
      Inr \<lparr>items = [(permanent_key, PyBool (permanent self))], sid = generate_sid x,
           modified = False\<rparr>" for x
    using assms by (auto simp: open_session_def new_session)
  have "generate_sid rnd \<noteq> []"
    using length_generate_sid [of rnd] by auto
  then show ?thesis
    using length_generate_sid [of rnd] by (auto simp: fresh generate_sid_eq_iff)
qed

text \<open>Two requests without a cookie, drawing the random bits 0 and 1.\<close>

theorem open_session_no_cookie_witness:
  \<open>open_session lib0 (DatabaseSessionInterface (create_app_config True)) commit_fails
      [] 63902822400000000 0 \<lparr>req_cookies = [], req_headers = []\<rparr>
    = Inr \<lparr>items = [(PyStr ''_permanent'', PyBool True)],
            sid = ''00000000-0000-4000-8000-000000000000'', modified = False\<rparr>
   \<and> open_session lib0 (DatabaseSessionInterface (create_app_config True)) commit_fails
      [] 63902822400000000 1 \<lparr>req_cookies = [], req_headers = []\<rparr>
    = Inr \<lparr>items = [(PyStr ''_permanent'', PyBool True)],
            sid = ''00000000-0000-4000-8000-000000000001'', modified = False\<rparr>
   \<and> ''00000000-0000-4000-8000-000000000001'' \<noteq> ''00000000-0000-4000-8000-000000000000''\<close>
  using open_session_no_cookie
    [where lib = lib0 and self = "DatabaseSessionInterface (create_app_config True)"
      and fails = commit_fails and db = "[]" and now = 63902822400000000 and rnd = 0
      and req = "\<lparr>req_cookies = [], req_headers = []\<rparr>"]
  by (simp add: open_session_def new_session generate_sid_zero generate_sid_one
       DatabaseSessionInterface_def create_app_config_def config_get_def permanent_key_def)

text \<open>
  Claim C10 says that the \<^verbatim>\<open>permanent\<close> flag is never persisted or restored. It is
  persisted: the flag is the item \<^verbatim>\<open>_permanent\<close> of the session dict, and \<open>save_session\<close>
  serialises the whole dict into the \<^verbatim>\<open>data\<close> column. The same session saved with the
  flag true and with the flag false leaves two different records, each of which decodes
  to a dict that holds the flag it was saved with.
\<close>

theorem save_session_persists_permanent_flag:
  \<open>save_session lib0 (DatabaseSessionInterface (create_app_config True))
      (create_app_config True) no_faults 63902822400000000
      \<lparr>items = [(PyStr ''a'', PyInt 1), (PyStr ''_permanent'', PyBool True)],
        sid = ''s1'', modified = True\<rparr>
      ([], \<lparr>resp_headers = []\<rparr>)
    = (None,
       [\<lparr>session_id = ''s1'', data = DbText ''{"a": 1, "_permanent": true}'',
         expiry = DbTimestamp (Naive 63905500800000000)\<rparr>],
       \<lparr>resp_headers =
          [(''Set-Cookie'',
            SetCookie \<lparr>ck_key = ''session'', ck_content = ''s1'',
              ck_max_age = Some 2678400000000, ck_expires = Some (Naive 63905500800000000),
              ck_path = None, ck_domain = None, ck_secure = True, ck_httponly = True,
              ck_samesite = Some SameSiteNone\<rparr>)]\<rparr>)
   \<and> save_session lib0 (DatabaseSessionInterface (create_app_config True))
      (create_app_config True) no_faults 63902822400000000
      \<lparr>items = [(PyStr ''a'', PyInt 1), (PyStr ''_permanent'', PyBool False)],
        sid = ''s1'', modified = True\<rparr>
      ([], \<lparr>resp_headers = []\<rparr>)
    = (None,
       [\<lparr>session_id = ''s1'', data = DbText ''{"a": 1, "_permanent": false}'',
         expiry = DbTimestamp (Naive 63902908800000000)\<rparr>],
       \<lparr>resp_headers =
          [(''Set-Cookie'',
            SetCookie \<lparr>ck_key = ''session'', ck_content = ''s1'',
              ck_max_age = None, ck_expires = None,
              ck_path = None, ck_domain = None, ck_secure = True, ck_httponly = True,
              ck_samesite = Some SameSiteNone\<rparr>)]\<rparr>)
   \<and> json_loads lib0 ''{"a": 1, "_permanent": true}''
    = Some (PyDict [(PyStr ''a'', PyInt 1), (PyStr ''_permanent'', PyBool True)])
   \<and> json_loads lib0 ''{"a": 1, "_permanent": false}''
    = Some (PyDict [(PyStr ''a'', PyInt 1), (PyStr ''_permanent'', PyBool False)])\<close>
  by (simp add: run_defs)

text \<open>
  Claim C10, amended: whatever the table holds, a session that \<open>open_session\<close> returns has
  its \<^verbatim>\<open>permanent\<close> flag equal to the value the interface read from \<^verbatim>\<open>SESSION_PERMANENT\<close>
  when it was built (false when the key is absent): its \<^verbatim>\<open>_permanent\<close> item is that
  value, written by the constructor over whatever the stored data held. The flag is
  persisted but never restored: \<open>save_session\<close> stores the serialisation of all items of
  the session, \<^verbatim>\<open>_permanent\<close> among them, and the next resolution replaces the stored
  flag by the configured one.
\<close>

theorem open_session_permanent_default:
  assumes "open_session lib (DatabaseSessionInterface app) fails db now rnd req = Inr s"
  shows "get_permanent s = (case SESSION_PERMANENT app of None \<Rightarrow> False | Some b \<Rightarrow> b) \<and>
         dict_get (items s) permanent_key =
           Some (PyBool (case SESSION_PERMANENT app of None \<Rightarrow> False | Some b \<Rightarrow> b)) \<and>
         (should_set_cookie app' s' \<and> json_dumps lib (items s') = Some d \<and>
          save_session lib self app' fails' now' s' (db0, resp) = (None, db', resp') \<longrightarrow>
          (\<exists>r. select_session db' (sid s') = Some r \<and> data r = DbText d))"
proof -
  have "get_permanent s = permanent (DatabaseSessionInterface app) \<and>
        dict_get (items s) permanent_key = Some (PyBool (permanent (DatabaseSessionInterface app)))"
    using assms
    by (auto simp: open_session_def dest: DatabaseSession_Inr load_session_Inr
        split: option.splits if_splits sum.splits bool.splits)
  then have flag: "get_permanent s = (case SESSION_PERMANENT app of None \<Rightarrow> False | Some b \<Rightarrow> b) \<and>
         dict_get (items s) permanent_key =
           Some (PyBool (case SESSION_PERMANENT app of None \<Rightarrow> False | Some b \<Rightarrow> b))"
    by (simp add: DatabaseSessionInterface_def config_get_def)
  have "\<exists>r. select_session db' (sid s') = Some r \<and> data r = DbText d"
    if "should_set_cookie app' s'" and "json_dumps lib (items s') = Some d"
      and "save_session lib self app' fails' now' s' (db0, resp) = (None, db', resp')"
    using persisted_row [OF that(1) that(3) that(2)] by blast
  with flag show ?thesis by blast
qed

text \<open>
  A record saved with \<^verbatim>\<open>_permanent\<close> false, resolved under \<^verbatim>\<open>SESSION_PERMANENT = True\<close>:
  the session comes back permanent, and saving it stores the flag true.
\<close>

theorem open_session_permanent_default_witness:
  \<open>open_session lib0 (DatabaseSessionInterface (create_app_config True)) no_faults
     [\<lparr>session_id = ''s1'', data = DbText ''{"a": 1, "_permanent": false}'',
       expiry = DbTimestamp (Naive 63902908800000000)\<rparr>]
     63902822400000000 0 \<lparr>req_cookies = [(''session'', ''s1'')], req_headers = []\<rparr>
   = Inr \<lparr>items = [(PyStr ''a'', PyInt 1), (PyStr ''_permanent'', PyBool True)],
           sid = ''s1'', modified = False\<rparr>
   \<and> get_permanent \<lparr>items = [(PyStr ''a'', PyInt 1), (PyStr ''_permanent'', PyBool True)],
           sid = ''s1'', modified = False\<rparr> = True
   \<and> select_session
       (fst (snd (save_session lib0 (DatabaseSessionInterface (create_app_config True))
          (create_app_config True) no_faults 63902822400000000
          \<lparr>items = [(PyStr ''a'', PyInt 1), (PyStr ''_permanent'', PyBool True)],
            sid = ''s1'', modified = False\<rparr>
          ([\<lparr>session_id = ''s1'', data = DbText ''{"a": 1, "_permanent": false}'',
             expiry = DbTimestamp (Naive 63902908800000000)\<rparr>],
           \<lparr>resp_headers = []\<rparr>)))) ''s1''
    = Some \<lparr>session_id = ''s1'', data = DbText ''{"a": 1, "_permanent": true}'',
             expiry = DbTimestamp (Naive 63905500800000000)\<rparr>\<close>
  using open_session_permanent_default
    [where lib = lib0 and app = "create_app_config True" and fails = no_faults
      and now = 63902822400000000 and rnd = 0
      and req = "\<lparr>req_cookies = [(''session'', ''s1'')], req_headers = []\<rparr>"
      and db = \<open>[\<lparr>session_id = ''s1'', data = DbText ''{"a": 1, "_permanent": false}'',
                 expiry = DbTimestamp (Naive 63902908800000000)\<rparr>]\<close>
      and s = "\<lparr>items = [(PyStr ''a'', PyInt 1), (PyStr ''_permanent'', PyBool True)],
                sid = ''s1'', modified = False\<rparr>"
      and s' = "\<lparr>items = [(PyStr ''a'', PyInt 1), (PyStr ''_permanent'', PyBool True)],
                sid = ''s1'', modified = False\<rparr>"
      and app' = "create_app_config True"
      and self = "DatabaseSessionInterface (create_app_config True)"
      and fails' = no_faults and now' = 63902822400000000
      and d = \<open>''{"a": 1, "_permanent": true}''\<close>
      and ?db0.0 = \<open>[\<lparr>session_id = ''s1'', data = DbText ''{"a": 1, "_permanent": false}'',
                 expiry = DbTimestamp (Naive 63902908800000000)\<rparr>]\<close>
      and resp = "\<lparr>resp_headers = []\<rparr>"]
  by (simp add: run_defs)

section \<open>Session persistence\<close>

text \<open>
  Claim C2 says that a session with \<^verbatim>\<open>modified\<close> false whose record exists is never
  written and gets no cookie. \<open>save_session\<close> decides by \<^verbatim>\<open>should_set_cookie\<close>, which is
  also true for an unmodified session that is permanent while
  \<^verbatim>\<open>SESSION_REFRESH_EACH_REQUEST\<close> is on. Under the configuration of \<^verbatim>\<open>create_app\<close>
  (\<^verbatim>\<open>SESSION_PERMANENT = True\<close>, refresh on), the session that \<open>open_session\<close> has just
  loaded, untouched, is written back with a new expiry and its cookie is set.
\<close>

theorem save_session_unmodified_permanent_writes:
  \<open>open_session lib0 (DatabaseSessionInterface (create_app_config True)) no_faults
      [\<lparr>session_id = ''s1'', data = DbText ''{"a": 1}'',
        expiry = DbTimestamp (Naive 63902908800000000)\<rparr>]
      63902822400000000 0 \<lparr>req_cookies = [(''session'', ''s1'')], req_headers = []\<rparr>
    = Inr \<lparr>items = [(PyStr ''a'', PyInt 1), (PyStr ''_permanent'', PyBool True)],
            sid = ''s1'', modified = False\<rparr>
   \<and> save_session lib0 (DatabaseSessionInterface (create_app_config True))
      (create_app_config True) no_faults 63902822400000000
      \<lparr>items = [(PyStr ''a'', PyInt 1), (PyStr ''_permanent'', PyBool True)],
        sid = ''s1'', modified = False\<rparr>
      ([\<lparr>session_id = ''s1'', data = DbText ''{"a": 1}'',
         expiry = DbTimestamp (Naive 63902908800000000)\<rparr>],
       \<lparr>resp_headers = []\<rparr>)
    = (None,
       [\<lparr>session_id = ''s1'', data = DbText ''{"a": 1, "_permanent": true}'',
         expiry = DbTimestamp (Naive 63905500800000000)\<rparr>],
       \<lparr>resp_headers =
          [(''Set-Cookie'',
            SetCookie \<lparr>ck_key = ''session'', ck_content = ''s1'',
              ck_max_age = Some 2678400000000, ck_expires = Some (Naive 63905500800000000),
              ck_path = None, ck_domain = None, ck_secure = True, ck_httponly = True,
              ck_samesite = Some SameSiteNone\<rparr>)]\<rparr>)\<close>
  by (simp add: run_defs)

text \<open>
  Claim C2, amended: a session with \<^verbatim>\<open>modified\<close> false that is not permanent, or any
  unmodified session when \<^verbatim>\<open>SESSION_REFRESH_EACH_REQUEST\<close> is off, is not persisted:
  \<open>save_session\<close> returns without raising and leaves the table and the response as they
  were, whether or not a record exists.
\<close>

theorem save_session_unmodified_skips:
  assumes "\<not> modified s" and "\<not> (get_permanent s \<and> SESSION_REFRESH_EACH_REQUEST app)"
  shows "save_session lib self app fails now s (db, resp) = (None, db, resp)"
  using assms by (simp add: save_session_def should_set_cookie_def)

theorem save_session_unmodified_skips_witness:
  \<open>save_session lib0 (DatabaseSessionInterface (create_app_config True))
      (create_app_config True) no_faults 63902822400000000
      \<lparr>items = [(PyStr ''a'', PyInt 1)], sid = ''s1'', modified = False\<rparr>
      ([\<lparr>session_id = ''s1'', data = DbText ''{"a": 1}'',
         expiry = DbTimestamp (Naive 63902908800000000)\<rparr>],
       \<lparr>resp_headers = []\<rparr>)
    = (None,
       [\<lparr>session_id = ''s1'', data = DbText ''{"a": 1}'',
         expiry = DbTimestamp (Naive 63902908800000000)\<rparr>],
       \<lparr>resp_headers = []\<rparr>)\<close>
  using save_session_unmodified_skips
    [where s = "\<lparr>items = [(PyStr ''a'', PyInt 1)], sid = ''s1'', modified = False\<rparr>"
      and app = "create_app_config True" and lib = lib0
      and self = "DatabaseSessionInterface (create_app_config True)" and fails = no_faults
      and now = 63902822400000000 and resp = "\<lparr>resp_headers = []\<rparr>"
      and db = \<open>[\<lparr>session_id = ''s1'', data = DbText ''{"a": 1}'',
                 expiry = DbTimestamp (Naive 63902908800000000)\<rparr>]\<close>]
  by (simp add: get_permanent_def dict_get_def permanent_key_def)

text \<open>
  Claim C3 says that a session with the data \<^verbatim>\<open>{"a": 1}\<close>, saved and resolved again
  before its expiry, comes back with data equal to \<^verbatim>\<open>{"a": 1}\<close>. The constructor that
  \<open>open_session\<close> calls sets \<^verbatim>\<open>self.permanent\<close>, which stores the item \<^verbatim>\<open>_permanent\<close> in the
  dict, so the resolved session holds one item more than was saved.
\<close>

theorem save_then_open_adds_permanent_item:
  \<open>save_session lib0 (DatabaseSessionInterface (create_app_config True))
      (create_app_config True) no_faults 63902822400000000
      \<lparr>items = [(PyStr ''a'', PyInt 1)], sid = ''s1'', modified = True\<rparr>
      ([], \<lparr>resp_headers = []\<rparr>)
    = (None,
       [\<lparr>session_id = ''s1'', data = DbText ''{"a": 1}'',
         expiry = DbTimestamp (Naive 63902908800000000)\<rparr>],
       \<lparr>resp_headers =
          [(''Set-Cookie'',
            SetCookie \<lparr>ck_key = ''session'', ck_content = ''s1'',
              ck_max_age = None, ck_expires = None,
              ck_path = None, ck_domain = None, ck_secure = True, ck_httponly = True,
              ck_samesite = Some SameSiteNone\<rparr>)]\<rparr>)
   \<and> open_session lib0 (DatabaseSessionInterface (create_app_config True)) no_faults
      [\<lparr>session_id = ''s1'', data = DbText ''{"a": 1}'',
        expiry = DbTimestamp (Naive 63902908800000000)\<rparr>]
      63902822400000000 0 \<lparr>req_cookies = [(''session'', ''s1'')], req_headers = []\<rparr>
    = Inr \<lparr>items = [(PyStr ''a'', PyInt 1), (PyStr ''_permanent'', PyBool True)],
            sid = ''s1'', modified = False\<rparr>
   \<and> [(PyStr ''a'', PyInt 1), (PyStr ''_permanent'', PyBool True)] \<noteq> [(PyStr ''a'', PyInt 1)]\<close>
  by (simp add: run_defs)

text \<open>
  Claim C3, amended: a session whose data is \<^verbatim>\<open>{"a": 1}\<close> and that \<open>save_session\<close>
  persisted (it was modified, and the call did not raise), resolved with the same
  identifier no later than the stored expiry (one day after the save: without a
  \<^verbatim>\<open>_permanent\<close> item the session is not permanent), comes back unmodified with the data
  \<^verbatim>\<open>{"a": 1, "_permanent": p}\<close>, where \<open>p\<close> is the interface's configured default: the item
  \<^verbatim>\<open>a\<close> round-trips, and the constructor adds \<^verbatim>\<open>_permanent\<close>. The library is assumed to
  decode what it encoded for this dict.
\<close>

theorem save_then_open_roundtrip:
  assumes "items s = [(PyStr ''a'', PyInt 1)]" and "modified s" and "sid s \<noteq> []"
    and "json_dumps lib (items s) = Some session_data"
    and "json_loads lib session_data = Some (PyDict (items s))"
    and "save_session lib self app fails now s (db, resp) = (None, db', resp')"
    and "map_of (req_cookies req) (cookie_name self) = Some (sid s)"
    and "\<not> fails' Select" and "now' \<le> now + days 1"
  shows "open_session lib self fails' db' now' rnd req =
           Inr \<lparr>items = [(PyStr ''a'', PyInt 1), (PyStr ''_permanent'', PyBool (permanent self))],
                sid = sid s, modified = False\<rparr>"
proof -
  have np: "\<not> get_permanent s"
    using assms(1) by (simp add: get_permanent_def dict_get_def permanent_key_def)
  have gate: "should_set_cookie app s"
    using assms(2) by (simp add: should_set_cookie_def)
  have "open_session lib self fails' db' now' rnd req =
          Inr \<lparr>items = dict_setitem (items s) permanent_key (PyBool (permanent self)),
               sid = sid s, modified = False\<rparr>"
    using roundtrip [where fails' = fails', OF gate assms(6) assms(4) assms(5) assms(7) assms(3) assms(8)]
      np assms(9)
    by simp
  then show ?thesis
    using assms(1) by (simp add: permanent_key_def)
qed

text \<open>Saved on 2026-01-01 into an empty table, resolved exactly at the expiry a day later.\<close>

theorem save_then_open_roundtrip_witness:
  \<open>open_session lib0 (DatabaseSessionInterface (create_app_config False)) no_faults
      [\<lparr>session_id = ''s1'', data = DbText ''{"a": 1}'',
        expiry = DbTimestamp (Naive 63902908800000000)\<rparr>]
      63902908800000000 0 \<lparr>req_cookies = [(''session'', ''s1'')], req_headers = []\<rparr>
    = Inr \<lparr>items = [(PyStr ''a'', PyInt 1), (PyStr ''_permanent'', PyBool True)],
            sid = ''s1'', modified = False\<rparr>\<close>
  using save_then_open_roundtrip
    [where s = "\<lparr>items = [(PyStr ''a'', PyInt 1)], sid = ''s1'', modified = True\<rparr>"
      and lib = lib0 and self = "DatabaseSessionInterface (create_app_config False)"
      and app = "create_app_config False" and fails = no_faults and fails' = no_faults
      and now = 63902822400000000 and now' = 63902908800000000 and rnd = 0
      and db = "[]" and resp = "\<lparr>resp_headers = []\<rparr>"
      and session_data = \<open>''{"a": 1}''\<close>
      and req = "\<lparr>req_cookies = [(''session'', ''s1'')], req_headers = []\<rparr>"
      and db' = \<open>[\<lparr>session_id = ''s1'', data = DbText ''{"a": 1}'',
                  expiry = DbTimestamp (Naive 63902908800000000)\<rparr>]\<close>
      and resp' = \<open>\<lparr>resp_headers =
          [(''Set-Cookie'',
            SetCookie \<lparr>ck_key = ''session'', ck_content = ''s1'',
              ck_max_age = None, ck_expires = None,
              ck_path = None, ck_domain = None, ck_secure = False, ck_httponly = True,
              ck_samesite = Some Lax\<rparr>)]\<rparr>\<close>]
  by (simp add: run_defs)

text \<open>
  Claim C5: \<open>save_session\<close> keeps the table at one row per \<^verbatim>\<open>session_id\<close> at most,
  whatever the outcome of the call; and after two saves in a row, the second one
  persisted under the identifier of the first, the table has exactly one row for that
  identifier, holding the data and the expiry of the second save together.
\<close>

theorem save_session_upsert:
  assumes "distinct (map session_id db)"
    and "save_session lib self app fails1 now1 s1 (db, resp) = (raised1, db1, resp1)"
    and "save_session lib self app fails2 now2 s2 (db1, resp1) = (raised2, db2, resp2)"
  shows "distinct (map session_id db1) \<and> distinct (map session_id db2) \<and>
         (should_set_cookie app s2 \<and> raised2 = None \<and> sid s2 = sid s1 \<and>
          json_dumps lib (items s2) = Some data2 \<longrightarrow>
          filter (\<lambda>r. session_id r = sid s1) db2 =
            [\<lparr>session_id = sid s1, data = DbText data2,
              expiry = DbTimestamp
                (Naive (now2 + (if get_permanent s2 then max_age self else days 1)))\<rparr>])"
proof -
  have d1: "distinct (map session_id db1)"
    using save_session_distinct [OF assms(1), of lib self app fails1 now1 s1 resp] assms(2)
    by simp
  have d2: "distinct (map session_id db2)"
    using save_session_distinct [OF d1, of lib self app fails2 now2 s2 resp1] assms(3)
    by simp
  let ?e = "DbTimestamp (Naive (now2 + (if get_permanent s2 then max_age self else days 1)))"
  have "filter (\<lambda>r. session_id r = sid s1) db2 =
          [\<lparr>session_id = sid s1, data = DbText data2, expiry = ?e\<rparr>]"
    if gate: "should_set_cookie app s2" and ok: "raised2 = None" and same: "sid s2 = sid s1"
      and dumps: "json_dumps lib (items s2) = Some data2"
  proof -
    from save_session_persisted [OF gate assms(3) [unfolded ok]] dumps
    have db2: "db2 = (if select_session db1 (sid s2) \<noteq> None
                 then update_session db1 (sid s2) (DbText data2) ?e
                 else insert_session db1 (sid s2) (DbText data2) ?e)"
      by auto
    show ?thesis
    proof (cases "select_session db1 (sid s2)")
      case None
      with db2 same show ?thesis
        by (simp add: insert_session_def filter_None)
    next
      case (Some r)
      then have r: "session_id r = sid s1" "filter (\<lambda>r. session_id r = sid s1) db1 = [r]"
        using same filter_distinct_Some [OF d1 Some] by (simp_all add: select_session_Some)
      have "r\<lparr>data := DbText data2, expiry := ?e\<rparr> =
              \<lparr>session_id = sid s1, data = DbText data2, expiry = ?e\<rparr>"
        using r(1) by (cases r) simp
      with Some db2 same r(2) show ?thesis
        by (simp add: filter_update)
    qed
  qed
  with d1 d2 show ?thesis by blast
qed

text \<open>
  The identifier \<^verbatim>\<open>s1\<close> saved on 2026-01-01 with \<^verbatim>\<open>{"a": 1}\<close> (a one-day session) and
  a day later with \<^verbatim>\<open>{"a": 1, "_permanent": true}\<close> (31 days), beside a row of another
  session.
\<close>

theorem save_session_upsert_witness:
  \<open>save_session lib0 (DatabaseSessionInterface (create_app_config True))
      (create_app_config True) no_faults 63902822400000000
      \<lparr>items = [(PyStr ''a'', PyInt 1)], sid = ''s1'', modified = True\<rparr>
      ([\<lparr>session_id = ''s0'', data = DbText ''{}'', expiry = DbNull\<rparr>],
       \<lparr>resp_headers = []\<rparr>)
    = (None,
       [\<lparr>session_id = ''s0'', data = DbText ''{}'', expiry = DbNull\<rparr>,
        \<lparr>session_id = ''s1'', data = DbText ''{"a": 1}'',
         expiry = DbTimestamp (Naive 63902908800000000)\<rparr>],
       set_cookie
         (session_cookie (DatabaseSessionInterface (create_app_config True))
            \<lparr>items = [(PyStr ''a'', PyInt 1)], sid = ''s1'', modified = True\<rparr>
            (Naive 63902908800000000))
         \<lparr>resp_headers = []\<rparr>)
   \<and> fst (snd (save_session lib0 (DatabaseSessionInterface (create_app_config True))
      (create_app_config True) no_faults 63902908800000000
      \<lparr>items = [(PyStr ''a'', PyInt 1), (PyStr ''_permanent'', PyBool True)],
        sid = ''s1'', modified = True\<rparr>
      ([\<lparr>session_id = ''s0'', data = DbText ''{}'', expiry = DbNull\<rparr>,
        \<lparr>session_id = ''s1'', data = DbText ''{"a": 1}'',
         expiry = DbTimestamp (Naive 63902908800000000)\<rparr>],
       set_cookie
         (session_cookie (DatabaseSessionInterface (create_app_config True))
            \<lparr>items = [(PyStr ''a'', PyInt 1)], sid = ''s1'', modified = True\<rparr>
            (Naive 63902908800000000))
         \<lparr>resp_headers = []\<rparr>)))
    = [\<lparr>session_id = ''s0'', data = DbText ''{}'', expiry = DbNull\<rparr>,
       \<lparr>session_id = ''s1'', data = DbText ''{"a": 1, "_permanent": true}'',
        expiry = DbTimestamp (Naive 63905587200000000)\<rparr>]
   \<and> filter (\<lambda>r. session_id r = ''s1'')
       [\<lparr>session_id = ''s0'', data = DbText ''{}'', expiry = DbNull\<rparr>,
        \<lparr>session_id = ''s1'', data = DbText ''{"a": 1, "_permanent": true}'',
         expiry = DbTimestamp (Naive 63905587200000000)\<rparr>]
    = [\<lparr>session_id = ''s1'', data = DbText ''{"a": 1, "_permanent": true}'',
        expiry = DbTimestamp (Naive 63905587200000000)\<rparr>]\<close>
  using save_session_upsert
    [where lib = lib0 and self = "DatabaseSessionInterface (create_app_config True)"
      and app = "create_app_config True" and ?fails1.0 = no_faults and ?fails2.0 = no_faults
      and ?now1.0 = 63902822400000000 and ?now2.0 = 63902908800000000
      and ?s1.0 = "\<lparr>items = [(PyStr ''a'', PyInt 1)], sid = ''s1'', modified = True\<rparr>"
      and ?s2.0 = "\<lparr>items = [(PyStr ''a'', PyInt 1), (PyStr ''_permanent'', PyBool True)],
                  sid = ''s1'', modified = True\<rparr>"
      and db = \<open>[\<lparr>session_id = ''s0'', data = DbText ''{}'', expiry = DbNull\<rparr>]\<close>
      and resp = "\<lparr>resp_headers = []\<rparr>" and ?raised1.0 = None and ?raised2.0 = None
      and ?data2.0 = \<open>''{"a": 1, "_permanent": true}''\<close>]
  by (simp add: run_defs)

text \<open>
  Claim C6: when \<open>save_session\<close> persists a session, the row of its identifier carries
  the expiry \<open>now + max_age\<close> if the session is permanent and \<open>now + 1 day\<close> otherwise;
  \<open>max_age\<close> is \<^verbatim>\<open>SESSION_MAX_AGE\<close>, and 31 days when the configuration has no such key.
\<close>

theorem save_session_expiry:
  assumes "should_set_cookie app s"
    and "save_session lib self app fails now s (db, resp) = (None, db', resp')"
  shows "(\<exists>r. select_session db' (sid s) = Some r) \<and>
         (\<forall>r \<in> set db'. session_id r = sid s \<longrightarrow>
            expiry r = DbTimestamp
              (Naive (now + (if get_permanent s then max_age self else days 1)))) \<and>
         max_age (DatabaseSessionInterface app) =
           (case SESSION_MAX_AGE app of None \<Rightarrow> days 31 | Some d \<Rightarrow> d)"
proof -
  let ?e = "DbTimestamp (Naive (now + (if get_permanent s then max_age self else days 1)))"
  from save_session_persisted [OF assms] obtain session_data where
    dumps: "json_dumps lib (items s) = Some session_data" and
    db': "db' = (if select_session db (sid s) \<noteq> None
                 then update_session db (sid s) (DbText session_data) ?e
                 else insert_session db (sid s) (DbText session_data) ?e)"
    by blast
  have found: "\<exists>r. select_session db' (sid s) = Some r"
    using persisted_row [OF assms dumps] by blast
  have stamped: "\<forall>r \<in> set db'. session_id r = sid s \<longrightarrow> expiry r = ?e"
  proof (cases "select_session db (sid s)")
    case None
    then have "\<forall>r \<in> set db. session_id r \<noteq> sid s"
      by (force simp: select_session_None)
    with None db' show ?thesis by (auto simp: insert_session_def)
  next
    case (Some r)
    with db' show ?thesis by (auto simp: update_session_def)
  qed
  have "max_age (DatabaseSessionInterface app) =
          (case SESSION_MAX_AGE app of None \<Rightarrow> days 31 | Some d \<Rightarrow> d)"
    by (simp add: DatabaseSessionInterface_def config_get_def)
  with found stamped show ?thesis by blast
qed

text \<open>
  Under the configuration of \<^verbatim>\<open>create_app\<close>, a permanent session saved on 2026-01-01
  expires on 2026-02-01, 31 days (2678400000000 microseconds) later.
\<close>

theorem save_session_expiry_witness:
  \<open>select_session
      (fst (snd (save_session lib0 (DatabaseSessionInterface (create_app_config True))
         (create_app_config True) no_faults 63902822400000000
         \<lparr>items = [(PyStr ''a'', PyInt 1), (PyStr ''_permanent'', PyBool True)],
           sid = ''s1'', modified = True\<rparr>
         ([], \<lparr>resp_headers = []\<rparr>)))) ''s1''
    = Some \<lparr>session_id = ''s1'', data = DbText ''{"a": 1, "_permanent": true}'',
             expiry = DbTimestamp (Naive (63902822400000000 + 2678400000000))\<rparr>
   \<and> max_age (DatabaseSessionInterface (create_app_config True)) = 2678400000000\<close>
  using save_session_expiry
    [where lib = lib0 and self = "DatabaseSessionInterface (create_app_config True)"
      and app = "create_app_config True" and fails = no_faults and now = 63902822400000000
      and s = "\<lparr>items = [(PyStr ''a'', PyInt 1), (PyStr ''_permanent'', PyBool True)],
                sid = ''s1'', modified = True\<rparr>"
      and db = "[]" and resp = "\<lparr>resp_headers = []\<rparr>"
      and db' = \<open>[\<lparr>session_id = ''s1'', data = DbText ''{"a": 1, "_permanent": true}'',
                  expiry = DbTimestamp (Naive 63905500800000000)\<rparr>]\<close>
      and resp' = \<open>set_cookie
         (session_cookie (DatabaseSessionInterface (create_app_config True))
            \<lparr>items = [(PyStr ''a'', PyInt 1), (PyStr ''_permanent'', PyBool True)],
              sid = ''s1'', modified = True\<rparr>
            (Naive 63905500800000000))
         \<lparr>resp_headers = []\<rparr>\<close>]
  by (simp add: run_defs)

text \<open>
  Claim C7: the write and its commit come before the cookie. Whenever \<open>save_session\<close>
  raises, the table and the response are as before the call; when the session is to be
  persisted and the \<^verbatim>\<open>SELECT\<close>, the \<^verbatim>\<open>UPDATE\<close> or \<^verbatim>\<open>INSERT\<close> that the code issues, or the
  \<^verbatim>\<open>commit()\<close> fails, the call raises; and a response that got the cookie comes from a
  call that did not raise, whose commit succeeded and whose row is in the table.
\<close>

theorem save_session_failure:
  assumes "save_session lib self app fails now s (db, resp) = (raised, db', resp')"
  shows "(raised \<noteq> None \<longrightarrow> db' = db \<and> resp' = resp) \<and>
         (should_set_cookie app s \<and>
          (fails Select \<or>
           fails (if select_session db (sid s) \<noteq> None then Update else Insert) \<or>
           fails Commit) \<longrightarrow> raised \<noteq> None) \<and>
         (resp' \<noteq> resp \<longrightarrow>
            raised = None \<and> \<not> fails Commit \<and> select_session db' (sid s) \<noteq> None)"
proof -
  have a: "raised \<noteq> None \<longrightarrow> db' = db \<and> resp' = resp"
    using assms
    by (auto simp: save_session_def Let_def split: if_splits sum.splits option.splits)
  have b: "should_set_cookie app s \<and>
          (fails Select \<or>
           fails (if select_session db (sid s) \<noteq> None then Update else Insert) \<or>
           fails Commit) \<longrightarrow> raised \<noteq> None"
    using assms
    by (auto simp: save_session_def Let_def split: if_splits sum.splits option.splits)
  have c: "resp' \<noteq> resp \<longrightarrow>
             raised = None \<and> \<not> fails Commit \<and> select_session db' (sid s) \<noteq> None"
  proof
    assume ne: "resp' \<noteq> resp"
    have gate: "should_set_cookie app s"
      using assms ne by (auto simp: save_session_def Let_def split: if_splits)
    have ok: "raised = None"
      using a ne by auto
    from save_session_persisted [OF gate assms [unfolded ok]] obtain session_data where
      dumps: "json_dumps lib (items s) = Some session_data" and up: "\<not> fails Commit"
      by blast
    from persisted_row [OF gate assms [unfolded ok] dumps] ok up
    show "raised = None \<and> \<not> fails Commit \<and> select_session db' (sid s) \<noteq> None"
      by auto
  qed
  from a b c show ?thesis by blast
qed

text \<open>The commit fails: \<^verbatim>\<open>DatabaseError\<close> reaches the caller, nothing is stored, no cookie.\<close>

theorem save_session_failure_witness:
  \<open>save_session lib0 (DatabaseSessionInterface (create_app_config True))
      (create_app_config True) commit_fails 63902822400000000
      \<lparr>items = [(PyStr ''a'', PyInt 1)], sid = ''s1'', modified = True\<rparr>
      ([], \<lparr>resp_headers = []\<rparr>)
    = (Some DatabaseError, [], \<lparr>resp_headers = []\<rparr>)\<close>
  using save_session_failure
    [where lib = lib0 and self = "DatabaseSessionInterface (create_app_config True)"
      and app = "create_app_config True" and fails = commit_fails
      and now = 63902822400000000
      and s = "\<lparr>items = [(PyStr ''a'', PyInt 1)], sid = ''s1'', modified = True\<rparr>"
      and db = "[]" and resp = "\<lparr>resp_headers = []\<rparr>"
      and raised = "Some DatabaseError" and db' = "[]" and resp' = "\<lparr>resp_headers = []\<rparr>"]
  by (simp add: run_defs)

section \<open>Cross-origin decoration\<close>

text \<open>
  Claim C8, for \<open>after_request\<close> and for the \<^verbatim>\<open>OPTIONS\<close> handler. (1) When the request's
  \<^verbatim>\<open>Origin\<close> is in the allow-list and the response has no \<^verbatim>\<open>Access-Control-Allow-Origin\<close>
  header, \<open>after_request\<close> appends the allow-origin, allow-headers, allow-methods,
  allow-credentials and max-age headers. (2) When the \<^verbatim>\<open>Origin\<close> is missing or not in
  the list, both hooks leave the response as it is. (3) When the response already has
  the allow-origin header, \<open>after_request\<close> leaves it as it is. (4) \<open>handle_options\<close>
  appends the same five headers for a listed origin, and (5) \<open>after_request\<close>, which runs
  on its response afterwards, adds nothing more.
\<close>

theorem cors_decoration:
  "(headers_get (req_headers req) ''Origin'' = Some origin \<and> origin \<in> set allowed_origins \<and>
      \<not> headers_contains ''Access-Control-Allow-Origin'' (resp_headers r) \<longrightarrow>
      resp_headers (after_request req r) =
        resp_headers r @
          [(''Access-Control-Allow-Origin'', Plain origin),
           (''Access-Control-Allow-Headers'',
            Plain ''Content-Type,Authorization,X-Requested-With,Accept''),
           (''Access-Control-Allow-Methods'', Plain ''GET,POST,PUT,DELETE,OPTIONS,PATCH''),
           (''Access-Control-Allow-Credentials'', Plain ''true''),
           (''Access-Control-Max-Age'', Plain ''86400'')]) \<and>
   (headers_get (req_headers req) ''Origin'' \<notin> Some ` set allowed_origins \<longrightarrow>
      after_request req r = r \<and> handle_options req r = r) \<and>
   (headers_contains ''Access-Control-Allow-Origin'' (resp_headers r) \<longrightarrow>
      after_request req r = r) \<and>
   (headers_get (req_headers req) ''Origin'' = Some origin \<and> origin \<in> set allowed_origins \<longrightarrow>
      resp_headers (handle_options req r) =
        resp_headers r @
          [(''Access-Control-Allow-Origin'', Plain origin),
           (''Access-Control-Allow-Headers'',
            Plain ''Content-Type,Authorization,X-Requested-With,Accept''),
           (''Access-Control-Allow-Methods'', Plain ''GET,POST,PUT,DELETE,OPTIONS,PATCH''),
           (''Access-Control-Allow-Credentials'', Plain ''true''),
           (''Access-Control-Max-Age'', Plain ''86400'')]) \<and>
   after_request req (handle_options req r) = handle_options req r"
proof -
  have "after_request req (handle_options req r) = handle_options req r"
  proof (cases "headers_get (req_headers req) ''Origin''")
    case None
    then show ?thesis by (simp add: after_request_def handle_options_def)
  next
    case (Some v)
    then show ?thesis
      using headers_contains_add_cors [of v r]
      by (simp add: after_request_def handle_options_def)
  qed
  moreover have "headers_get (req_headers req) ''Origin'' \<notin> Some ` set allowed_origins \<longrightarrow>
      after_request req r = r \<and> handle_options req r = r"
    by (auto simp: after_request_def handle_options_def split: option.splits)
  ultimately show ?thesis
    by (simp add: after_request_def handle_options_def resp_headers_add_cors)
qed

text \<open>
  The preflight of the spec: from \<^verbatim>\<open>http://localhost:5173\<close> the response gets
  \<^verbatim>\<open>Access-Control-Allow-Origin: http://localhost:5173\<close> and the four other headers, once;
  from \<^verbatim>\<open>http://evil.example\<close> it gets none.
\<close>

theorem cors_decoration_witness:
  "resp_headers
     (after_request \<lparr>req_cookies = [], req_headers = [(''Origin'', ''http://localhost:5173'')]\<rparr>
        (handle_options
           \<lparr>req_cookies = [], req_headers = [(''Origin'', ''http://localhost:5173'')]\<rparr>
           \<lparr>resp_headers = [(''Allow'', Plain ''OPTIONS'')]\<rparr>))
   = [(''Allow'', Plain ''OPTIONS''),
      (''Access-Control-Allow-Origin'', Plain ''http://localhost:5173''),
      (''Access-Control-Allow-Headers'',
       Plain ''Content-Type,Authorization,X-Requested-With,Accept''),
      (''Access-Control-Allow-Methods'', Plain ''GET,POST,PUT,DELETE,OPTIONS,PATCH''),
      (''Access-Control-Allow-Credentials'', Plain ''true''),
      (''Access-Control-Max-Age'', Plain ''86400'')]
   \<and> after_request \<lparr>req_cookies = [], req_headers = [(''Origin'', ''http://evil.example'')]\<rparr>
        (handle_options
           \<lparr>req_cookies = [], req_headers = [(''Origin'', ''http://evil.example'')]\<rparr>
           \<lparr>resp_headers = [(''Allow'', Plain ''OPTIONS'')]\<rparr>)
   = \<lparr>resp_headers = [(''Allow'', Plain ''OPTIONS'')]\<rparr>"
  using cors_decoration
    [where req = "\<lparr>req_cookies = [], req_headers = [(''Origin'', ''http://localhost:5173'')]\<rparr>"
      and origin = "''http://localhost:5173''"
      and r = "\<lparr>resp_headers = [(''Allow'', Plain ''OPTIONS'')]\<rparr>"]
    cors_decoration
    [where req = "\<lparr>req_cookies = [], req_headers = [(''Origin'', ''http://evil.example'')]\<rparr>"
      and origin = "''http://evil.example''"
      and r = "\<lparr>resp_headers = [(''Allow'', Plain ''OPTIONS'')]\<rparr>"]
  by (simp add: headers_get_def str_lower_def lower_char_def allowed_origins_def)

end
